theory Spec2Isabelle
  imports Main "HOL-Library.AList"
begin

section \<open>Python strings\<close>

text \<open>
  A Python \<open>str\<close> is modelled as a \<open>string\<close>: a \<open>char\<close> is a code point below 256, so the
  texts of the model are the Latin-1 texts. On these characters \<open>isspace\<close> is
  \<open>str.isspace\<close> (the characters that \<open>str.strip\<close> removes and the class \<open>\s\<close> of \<open>re\<close>),
  \<open>isdigit\<close> is the class \<open>\d\<close> of \<open>re\<close>, and \<open>lower\<close> and \<open>upper\<close> are \<open>str.lower\<close> and
  \<open>str.upper\<close>.
\<close>

definition whitespace :: "char list" where
  "whitespace = [CHR 0x09, CHR 0x0A, CHR 0x0B, CHR 0x0C, CHR 0x0D,
                 CHR 0x1C, CHR 0x1D, CHR 0x1E, CHR 0x1F, CHR 0x20, CHR 0x85, CHR 0xA0]"

definition isspace :: "char \<Rightarrow> bool" where
  "isspace c = (c \<in> set whitespace)"

definition isdigit :: "char \<Rightarrow> bool" where
  "isdigit c = (c \<in> set ''0123456789'')"

definition ascii_lowercase :: string where
  "ascii_lowercase = ''abcdefghijklmnopqrstuvwxyz''"

definition ascii_uppercase :: string where
  "ascii_uppercase = ''ABCDEFGHIJKLMNOPQRSTUVWXYZ''"

text \<open>
  The cased letters above U+007F: U+00E0 to U+00FE without the division sign U+00F7, and
  their capitals U+00C0 to U+00DE without the multiplication sign U+00D7.
\<close>

definition latin1_lowercase :: string where
  "latin1_lowercase =
     [CHR 0xE0, CHR 0xE1, CHR 0xE2, CHR 0xE3, CHR 0xE4, CHR 0xE5, CHR 0xE6, CHR 0xE7,
      CHR 0xE8, CHR 0xE9, CHR 0xEA, CHR 0xEB, CHR 0xEC, CHR 0xED, CHR 0xEE, CHR 0xEF,
      CHR 0xF0, CHR 0xF1, CHR 0xF2, CHR 0xF3, CHR 0xF4, CHR 0xF5, CHR 0xF6, CHR 0xF8,
      CHR 0xF9, CHR 0xFA, CHR 0xFB, CHR 0xFC, CHR 0xFD, CHR 0xFE]"

definition latin1_uppercase :: string where
  "latin1_uppercase =
     [CHR 0xC0, CHR 0xC1, CHR 0xC2, CHR 0xC3, CHR 0xC4, CHR 0xC5, CHR 0xC6, CHR 0xC7,
      CHR 0xC8, CHR 0xC9, CHR 0xCA, CHR 0xCB, CHR 0xCC, CHR 0xCD, CHR 0xCE, CHR 0xCF,
      CHR 0xD0, CHR 0xD1, CHR 0xD2, CHR 0xD3, CHR 0xD4, CHR 0xD5, CHR 0xD6, CHR 0xD8,
      CHR 0xD9, CHR 0xDA, CHR 0xDB, CHR 0xDC, CHR 0xDD, CHR 0xDE]"

definition lower_char :: "char \<Rightarrow> char" where
  "lower_char c =
     (case map_of (zip (ascii_uppercase @ latin1_uppercase) (ascii_lowercase @ latin1_lowercase)) c of
        Some l \<Rightarrow> l
      | None \<Rightarrow> c)"

text \<open>
  \<open>str.upper\<close> leaves the range at two characters, and lengthens the text at a third: the
  micro sign U+00B5 becomes U+039C, the letter U+00FF becomes U+0178, and the sharp s
  U+00DF becomes \<open>SS\<close>. The upper case of a text is therefore a list of code points.
\<close>

definition upper_char :: "char \<Rightarrow> nat list" where
  "upper_char c =
     (if c = CHR 0xB5 then [0x39C]
      else if c = CHR 0xDF then [0x53, 0x53]
      else if c = CHR 0xFF then [0x178]
      else [of_char
              (case map_of (zip (ascii_lowercase @ latin1_lowercase)
                                (ascii_uppercase @ latin1_uppercase)) c of
                 Some u \<Rightarrow> u
               | None \<Rightarrow> c)])"

definition code_points :: "string \<Rightarrow> nat list" where
  "code_points s = map of_char s"

text \<open>\<open>s.upper()\<close>, \<open>s.lower()\<close>, \<open>s.strip()\<close>, \<open>s.startswith(p)\<close>.\<close>

definition upper :: "string \<Rightarrow> nat list" where
  "upper s = concat (map upper_char s)"

definition lower :: "string \<Rightarrow> string" where
  "lower s = map lower_char s"

definition strip :: "string \<Rightarrow> string" where
  "strip s = rev (dropWhile isspace (rev (dropWhile isspace s)))"

definition startswith :: "string \<Rightarrow> string \<Rightarrow> bool" where
  "startswith s p = (take (length p) s = p)"

text \<open>\<open>sub in s\<close> on strings: \<open>sub\<close> occurs somewhere in \<open>s\<close>.\<close>

fun contains :: "string \<Rightarrow> string \<Rightarrow> bool" where
  "contains sub [] = (sub = [])"
| "contains sub (c # cs) = (startswith (c # cs) sub \<or> contains sub cs)"

text \<open>\<open>str(n)\<close> for a non-negative integer: its decimal digits.\<close>

definition digit_char :: "nat \<Rightarrow> char" where
  "digit_char d = ''0123456789'' ! d"

function str_nat :: "nat \<Rightarrow> string" where
  "str_nat n = (if n < 10 then [digit_char n] else str_nat (n div 10) @ [digit_char (n mod 10)])"
  by pat_completeness auto
termination
  by (relation "measure (\<lambda>n. n)") auto

declare str_nat.simps [simp del]

section \<open>The regular expressions of the scraper\<close>

text \<open>
  The three patterns of the source use literals, character classes, \<open>*\<close>, \<open>+\<close> and the
  lazy \<open>+?\<close> on a class, \<open>$\<close>, sequence, alternation and capturing groups. \<open>rmatch\<close> is the
  backtracking matcher of Python's \<open>re\<close> on that fragment: it tries the alternatives in
  priority order (left branch first, greedy longest first, lazy shortest first) and hands
  the rest of the text and the groups closed so far to the continuation. \<open>\d{2}\<close> is
  written as two \<open>\d\<close>; \<open>(?:...)\<close> is plain structure.
\<close>

datatype cc = Digit | Space | Range char char | One char

definition in_range :: "char \<Rightarrow> char \<Rightarrow> char \<Rightarrow> bool" where
  "in_range lo hi c = ((of_char lo :: nat) \<le> of_char c \<and> (of_char c :: nat) \<le> of_char hi)"

fun in_cc :: "cc \<Rightarrow> char \<Rightarrow> bool" where
  "in_cc Digit c = isdigit c"
| "in_cc Space c = isspace c"
| "in_cc (Range lo hi) c = in_range lo hi c"
| "in_cc (One x) c = (c = x)"

definition in_class :: "cc list \<Rightarrow> char \<Rightarrow> bool" where
  "in_class C c = list_ex (\<lambda>i. in_cc i c) C"

datatype regex =
    Lit string
  | Cls "cc list"
  | Star "cc list"
  | Plus "cc list"
  | PlusLazy "cc list"
  | Eos
  | Seq regex regex
  | Alt regex regex
  | Group regex

fun star_greedy ::
  "cc list \<Rightarrow> string \<Rightarrow> string list \<Rightarrow> (string \<Rightarrow> string list \<Rightarrow> 'r option) \<Rightarrow> 'r option" where
  "star_greedy C [] g k = k [] g"
| "star_greedy C (x # xs) g k =
     (if in_class C x
      then (case star_greedy C xs g k of Some r \<Rightarrow> Some r | None \<Rightarrow> k (x # xs) g)
      else k (x # xs) g)"

fun star_lazy ::
  "cc list \<Rightarrow> string \<Rightarrow> string list \<Rightarrow> (string \<Rightarrow> string list \<Rightarrow> 'r option) \<Rightarrow> 'r option" where
  "star_lazy C [] g k = k [] g"
| "star_lazy C (x # xs) g k =
     (case k (x # xs) g of Some r \<Rightarrow> Some r
      | None \<Rightarrow> if in_class C x then star_lazy C xs g k else None)"

text \<open>\<open>$\<close> (no MULTILINE flag): the end of the text, or just before a final newline.\<close>

fun rmatch ::
  "regex \<Rightarrow> string \<Rightarrow> string list \<Rightarrow> (string \<Rightarrow> string list \<Rightarrow> 'r option) \<Rightarrow> 'r option" where
  "rmatch (Lit p) s g k = (if startswith s p then k (drop (length p) s) g else None)"
| "rmatch (Cls C) s g k =
     (case s of [] \<Rightarrow> None | x # xs \<Rightarrow> if in_class C x then k xs g else None)"
| "rmatch (Star C) s g k = star_greedy C s g k"
| "rmatch (Plus C) s g k =
     (case s of [] \<Rightarrow> None | x # xs \<Rightarrow> if in_class C x then star_greedy C xs g k else None)"
| "rmatch (PlusLazy C) s g k =
     (case s of [] \<Rightarrow> None | x # xs \<Rightarrow> if in_class C x then star_lazy C xs g k else None)"
| "rmatch Eos s g k = (if s = [] \<or> s = [CHR 0x0A] then k s g else None)"
| "rmatch (Seq a b) s g k = rmatch a s g (\<lambda>s' g'. rmatch b s' g' k)"
| "rmatch (Alt a b) s g k =
     (case rmatch a s g k of Some r \<Rightarrow> Some r | None \<Rightarrow> rmatch b s g k)"
| "rmatch (Group a) s g k =
     rmatch a s g (\<lambda>s' g'. k s' (g' @ [take (length s - length s') s]))"

text \<open>
  \<open>re.search\<close>: the match at the leftmost start position that has one. The result is the
  list of the groups, \<open>group(1)\<close> first.
\<close>

fun re_search :: "regex \<Rightarrow> string \<Rightarrow> string list option" where
  "re_search r [] = rmatch r [] [] (\<lambda>s g. Some g)"
| "re_search r (c # cs) =
     (case rmatch r (c # cs) [] (\<lambda>s g. Some g) of
        Some g \<Rightarrow> Some g
      | None \<Rightarrow> re_search r cs)"

definition group :: "string list \<Rightarrow> nat \<Rightarrow> string" where
  "group g n = g ! (n - 1)"

text \<open>
  \<^verbatim>\<open>(\d{2}-\d{2}-\d+)\s+([A-Z][A-Z0-9\s\'\-\.]+?)(?:\s*Activity Type|\s*$)\<close>
\<close>

definition header_re :: regex where
  "header_re =
     Seq (Group (Seq (Cls [Digit]) (Seq (Cls [Digit]) (Seq (Lit ''-'')
            (Seq (Cls [Digit]) (Seq (Cls [Digit]) (Seq (Lit ''-'') (Plus [Digit]))))))))
    (Seq (Plus [Space])
    (Seq (Group (Seq (Cls [Range CHR ''A'' CHR ''Z''])
                     (PlusLazy [Range CHR ''A'' CHR ''Z'', Range CHR ''0'' CHR ''9'', Space,
                                One (CHR 0x27), One CHR ''-'', One CHR ''.''])))
         (Alt (Seq (Star [Space]) (Lit ''Activity Type'')) (Seq (Star [Space]) Eos))))"

text \<open>\<^verbatim>\<open>download-document|docSeqNo\<close> and \<^verbatim>\<open>docSeqNo=(\d+)\<close>\<close>

definition link_re :: regex where
  "link_re = Alt (Lit ''download-document'') (Lit ''docSeqNo'')"

definition seq_re :: regex where
  "seq_re = Seq (Lit ''docSeqNo='') (Group (Plus [Digit]))"

section \<open>Dictionaries, the parsed page and the upstream service\<close>

text \<open>
  A Python dict is an association list in insertion order: \<open>d[k] = v\<close> is
  \<open>AList.update k v d\<close> (replace in place, or append), \<open>d.get(k, default)\<close> is
  \<open>dict_get\<close>, \<open>k in d\<close> is \<open>dict_has\<close>.
\<close>

definition dict_get :: "('k \<times> 'v) list \<Rightarrow> 'k \<Rightarrow> 'v \<Rightarrow> 'v" where
  "dict_get d k dflt = (case map_of d k of Some v \<Rightarrow> v | None \<Rightarrow> dflt)"

definition dict_has :: "('k \<times> 'v) list \<Rightarrow> 'k \<Rightarrow> bool" where
  "dict_has d k = (map_of d k \<noteq> None)"

text \<open>
  What the scraper reads of the tree that BeautifulSoup builds: the text of the page
  (\<open>soup.get_text()\<close>) and its elements in document order, each with its name, the tokens
  of its \<open>class\<close> attribute, and its \<open>value\<close> and \<open>href\<close> attributes when it has them.
\<close>

record tag =
  tag_name :: string
  tag_class :: "string list"
  tag_value :: "string option"
  tag_href :: "string option"

record soup =
  get_text :: string
  tags :: "tag list"

text \<open>
  The request that \<open>requests.post\<close> sends, and what can come of it: a response with a
  status code and a body, \<open>requests.Timeout\<close>, or another exception with its message.
\<close>

record payload =
  payload_url :: string
  waitFor :: nat
  waitUntil :: string

record http_request =
  req_url :: string
  req_json :: payload
  req_headers :: "(string \<times> string) list"
  req_timeout :: nat

datatype post_outcome = Response nat string | Timeout | Raises string

text \<open>
  The surroundings of one call: the credential read from the process environment, the
  rendering service behind \<open>requests.post\<close>, and the parser (\<open>Inl\<close> is the message of an
  exception raised while the page is parsed and its text read, before any field is
  extracted). Exceptions are instances of \<open>Exception\<close>, which the outermost handler catches.
\<close>

record environment =
  BROWSERLESS_API_KEY :: string
  post :: "http_request \<Rightarrow> post_outcome"
  BeautifulSoup :: "string \<Rightarrow> string + soup"

definition BROWSERLESS_URL :: string where
  "BROWSERLESS_URL = ''https://chrome.browserless.io/content''"

section \<open>The result\<close>

text \<open>
  The value of a flag is a \<open>bool\<close> or a \<open>str\<close>. \<open>FlagStr s\<close> is the \<open>str\<close> with the
  characters of \<open>s\<close>; \<open>FlagText cs\<close> is a \<open>str\<close> with a code point above U+00FF, given by
  its code points. \<open>text_flag\<close> is the flag of a \<open>str\<close> given by its code points.
\<close>

datatype flag = FlagStr string | FlagBool bool | FlagText "nat list"

definition text_flag :: "nat list \<Rightarrow> flag" where
  "text_flag cs =
     (if list_all (\<lambda>c. c < 256) cs then FlagStr (map char_of cs) else FlagText cs)"

datatype field = FInt nat | FStr string

type_synonym document = "(string \<times> field) list"

datatype rvalue =
    SiteInfo "(string \<times> string) list"
  | RiskFlags "(string \<times> flag) list"
  | Documents "document list"
  | Str string
  | NoneVal

type_synonym result = "(string \<times> rvalue) list"

section \<open>The stages of \<open>scrape_with_browserless\<close>\<close>

text \<open>Lines 75 to 81: the activity number and the name from the header.\<close>

definition extract_header :: "string \<Rightarrow> (string \<times> string) list \<Rightarrow> (string \<times> string) list" where
  "extract_header page_text site_info =
     (case re_search header_re page_text of
        Some header_match \<Rightarrow>
          AList.update ''location_name'' (strip (group header_match 2))
            (AList.update ''activity_number'' (group header_match 1) site_info)
      | None \<Rightarrow> site_info)"

text \<open>Lines 84 and 85: the stripped values of the inputs of class \<open>form-control\<close>.\<close>

definition find_inputs :: "soup \<Rightarrow> tag list" where
  "find_inputs sp =
     filter (\<lambda>t. tag_name t = ''input'' \<and> ''form-control'' \<in> set (tag_class t)) (tags sp)"

definition input_value :: "tag \<Rightarrow> string" where
  "input_value inp = strip (case tag_value inp of Some v \<Rightarrow> v | None \<Rightarrow> [])"

definition input_values :: "soup \<Rightarrow> string list" where
  "input_values sp = map input_value (find_inputs sp)"

text \<open>Lines 88 to 113: the position table and the loop over it.\<close>

definition field_map :: "(nat \<times> string) list" where
  "field_map =
     [(0, ''activity_type''), (1, ''status''), (2, ''jurisdiction''), (3, ''dnr_region''),
      (4, ''county''), (5, ''location_name''), (6, ''address''), (7, ''municipality''),
      (8, ''plss_description''), (9, ''latitude''), (10, ''longitude''), (11, ''acres''),
      (12, ''facility_id''), (13, ''pecfa_number''), (14, ''epa_id''), (15, ''start_date''),
      (16, ''end_date'')]"

fun map_fields ::
  "(nat \<times> string) list \<Rightarrow> string list \<Rightarrow> (string \<times> string) list \<Rightarrow> (string \<times> string) list" where
  "map_fields [] vals site_info = site_info"
| "map_fields ((idx, key) # rest) vals site_info =
     (if idx < length vals \<and> vals ! idx \<noteq> []
      then (if key = ''location_name'' \<and> dict_has site_info ''location_name''
            then map_fields rest vals site_info
            else map_fields rest vals (AList.update key (vals ! idx) site_info))
      else map_fields rest vals site_info)"

text \<open>Lines 116 to 126: the risk flags.\<close>

definition heavy_metals :: "string list" where
  "heavy_metals = [''arsenic'', ''lead'', ''mercury'', ''chromium'']"

definition classify ::
  "(string \<times> string) list \<Rightarrow> string \<Rightarrow> (string \<times> flag) list \<Rightarrow> (string \<times> flag) list" where
  "classify site_info page_text risk_flags =
     (let status = upper (dict_get site_info ''status'' []);
          rf1 = AList.update ''status_label''
                  (if status \<noteq> [] then text_flag status else FlagStr ''UNKNOWN'') risk_flags;
          activity_type = upper (dict_get site_info ''activity_type'' []);
          rf2 = (if activity_type = code_points ''LUST'' \<or>
                    contains ''petroleum'' (lower page_text)
                 then AList.update ''petroleum'' (FlagBool True) rf1 else rf1);
          rf3 = (if contains ''pfas'' (lower page_text)
                 then AList.update ''pfas'' (FlagBool True) rf2 else rf2)
      in (if list_ex (\<lambda>m. contains m (lower page_text)) heavy_metals
          then AList.update ''heavy_metals'' (FlagBool True) rf3 else rf3))"

text \<open>Lines 129 to 144: the document links.\<close>

definition find_links :: "soup \<Rightarrow> tag list" where
  "find_links sp =
     filter (\<lambda>t. tag_name t = ''a'' \<and>
                 (case tag_href t of Some h \<Rightarrow> re_search link_re h \<noteq> None | None \<Rightarrow> False))
       (tags sp)"

definition link_href :: "tag \<Rightarrow> string" where
  "link_href link = (case tag_href link of Some h \<Rightarrow> h | None \<Rightarrow> [])"

definition absolute_url :: "string \<Rightarrow> string" where
  "absolute_url href =
     (if \<not> startswith href ''http'' then ''https://apps.dnr.wi.gov'' @ href else href)"

definition seq_no :: "nat \<Rightarrow> string \<Rightarrow> string" where
  "seq_no n href =
     (case re_search seq_re href of Some seq_match \<Rightarrow> group seq_match 1 | None \<Rightarrow> str_nat n)"

text \<open>The document appended for a link, \<open>n\<close> being \<open>len(documents)\<close> at that moment.\<close>

definition new_document :: "nat \<Rightarrow> string \<Rightarrow> document" where
  "new_document n href =
     [(''id'', FInt n),
      (''download_url'', FStr (absolute_url href)),
      (''category'', FStr ''Site File''),
      (''name'', FStr (''Site File Documentation (ID: '' @ seq_no n (absolute_url href) @ '')'')),
      (''comment'', FStr ''DNR site documentation'')]"

fun collect_documents :: "tag list \<Rightarrow> document list \<Rightarrow> document list" where
  "collect_documents [] documents = documents"
| "collect_documents (link # links) documents =
     (if link_href link \<noteq> []
      then collect_documents links (documents @ [new_document (length documents) (link_href link)])
      else collect_documents links documents)"

text \<open>Lines 71 to 157: everything after the page has been fetched.\<close>

definition parse_page ::
  "soup \<Rightarrow> (string \<times> string) list \<Rightarrow> (string \<times> flag) list \<Rightarrow> document list \<Rightarrow> result" where
  "parse_page sp site_info0 risk_flags0 documents0 =
     (let page_text = get_text sp;
          site_info = map_fields field_map (input_values sp) (extract_header page_text site_info0);
          risk_flags = classify site_info page_text risk_flags0;
          documents = collect_documents (find_links sp) documents0;
          location = dict_get site_info ''location_name'' ''Unknown'';
          status = dict_get site_info ''status'' ''Unknown'';
          summary = ''Site: '' @ location @ '' - Status: '' @ status
      in [(''site_info'', SiteInfo site_info),
          (''risk_flags'', RiskFlags risk_flags),
          (''documents'', Documents documents),
          (''summary'', Str summary),
          (''error'', NoneVal)])"

text \<open>
  Lines 38 to 59: the one request. The \<open>headers\<close> dict with the \<open>Authorization\<close> entry
  (lines 46 to 49) is built and never passed on; the call sends the token in the URL and the
  \<open>Content-Type\<close> header alone.
\<close>

definition render_request :: "environment \<Rightarrow> string \<Rightarrow> http_request" where
  "render_request env dsn =
     \<lparr>req_url = BROWSERLESS_URL @ ''?token='' @ BROWSERLESS_API_KEY env,
      req_json = \<lparr>payload_url = ''https://apps.dnr.wi.gov/rrbotw/botw-activity-detail?dsn='' @ dsn,
                  waitFor = 5000,
                  waitUntil = ''networkidle2''\<rparr>,
      req_headers = [(''Content-Type'', ''application/json'')],
      req_timeout = 60\<rparr>"

text \<open>
  The whole function. It returns the result together with the requests it has sent, in
  order. Every \<open>return\<close> of the source, also those of the two handlers, is a branch.
\<close>

definition scrape_run :: "environment \<Rightarrow> string \<Rightarrow> result \<times> http_request list" where
  "scrape_run env dsn =
     (let site_info = [(''dsn'', dsn)];
          risk_flags = [(''status_label'', FlagStr ''UNKNOWN'')];
          documents = []
      in if BROWSERLESS_API_KEY env = []
         then ([(''site_info'', SiteInfo site_info),
                (''risk_flags'', RiskFlags risk_flags),
                (''documents'', Documents documents),
                (''error'', Str ''BROWSERLESS_API_KEY not set. Add it to environment variables.''),
                (''summary'', Str ''Browserless API key required for full scraping.'')], [])
         else
           (let request = render_request env dsn in
            case post env request of
              Timeout \<Rightarrow>
                ([(''site_info'', SiteInfo site_info),
                  (''risk_flags'', RiskFlags risk_flags),
                  (''documents'', Documents documents),
                  (''error'', Str ''Request timed out''),
                  (''summary'', Str ''Page load timed out'')], [request])
            | Raises e \<Rightarrow>
                ([(''site_info'', SiteInfo site_info),
                  (''risk_flags'', RiskFlags risk_flags),
                  (''documents'', Documents documents),
                  (''error'', Str e),
                  (''summary'', Str (''Error: '' @ e))], [request])
            | Response status_code text \<Rightarrow>
                if status_code \<noteq> 200
                then ([(''site_info'', SiteInfo site_info),
                       (''risk_flags'', RiskFlags risk_flags),
                       (''documents'', Documents documents),
                       (''error'', Str (''Browserless API error: '' @ str_nat status_code)),
                       (''summary'', Str (''Failed to render page: '' @ take 200 text))], [request])
                else (case BeautifulSoup env text of
                        Inl e \<Rightarrow>
                          ([(''site_info'', SiteInfo site_info),
                            (''risk_flags'', RiskFlags risk_flags),
                            (''documents'', Documents documents),
                            (''error'', Str e),
                            (''summary'', Str (''Error: '' @ e))], [request])
                      | Inr sp \<Rightarrow> (parse_page sp site_info risk_flags documents, [request]))))"

definition scrape_with_browserless :: "environment \<Rightarrow> string \<Rightarrow> result" where
  "scrape_with_browserless env dsn = fst (scrape_run env dsn)"

definition outbound_calls :: "environment \<Rightarrow> string \<Rightarrow> http_request list" where
  "outbound_calls env dsn = snd (scrape_run env dsn)"

section \<open>Notions of the specification\<close>

text \<open>
  A well-formed Result has the five entries with values of the right kind; the error is
  \<open>None\<close> or a string.
\<close>

fun is_str :: "rvalue option \<Rightarrow> bool" where
  "is_str (Some (Str s)) = True"
| "is_str v = False"

fun is_site_info :: "rvalue option \<Rightarrow> bool" where
  "is_site_info (Some (SiteInfo d)) = True"
| "is_site_info v = False"

fun is_risk_flags :: "rvalue option \<Rightarrow> bool" where
  "is_risk_flags (Some (RiskFlags d)) = True"
| "is_risk_flags v = False"

fun is_documents :: "rvalue option \<Rightarrow> bool" where
  "is_documents (Some (Documents d)) = True"
| "is_documents v = False"

definition well_formed :: "result \<Rightarrow> bool" where
  "well_formed r =
     (is_site_info (map_of r ''site_info'') \<and> is_risk_flags (map_of r ''risk_flags'') \<and>
      is_documents (map_of r ''documents'') \<and> is_str (map_of r ''summary'') \<and>
      (map_of r ''error'' = Some NoneVal \<or> is_str (map_of r ''error'')))"

text \<open>
  The success path: a credential is configured, the service answers with status 200, and
  no exception is raised.
\<close>

definition success_path :: "environment \<Rightarrow> string \<Rightarrow> bool" where
  "success_path env dsn =
     (BROWSERLESS_API_KEY env \<noteq> [] \<and>
      (case post env (render_request env dsn) of
         Response status_code body \<Rightarrow>
           status_code = 200 \<and> (case BeautifulSoup env body of Inl e \<Rightarrow> False | Inr sp \<Rightarrow> True)
       | Timeout \<Rightarrow> False
       | Raises e \<Rightarrow> False))"

section \<open>A sample page\<close>

text \<open>
  A page with seven inputs of class \<open>form-control\<close> (the first with a no-break space in
  front, one without a value, and the last with a no-break space alone), an input of
  another class, two document links and a link that is none. The sixth input carries a
  name other than the one in the header.
\<close>

definition form_input :: "string list \<Rightarrow> string option \<Rightarrow> tag" where
  "form_input classes v = \<lparr>tag_name = ''input'', tag_class = classes, tag_value = v, tag_href = None\<rparr>"

definition anchor :: "string \<Rightarrow> tag" where
  "anchor href = \<lparr>tag_name = ''a'', tag_class = [], tag_value = None, tag_href = Some href\<rparr>"

definition sample_page :: soup where
  "sample_page =
     \<lparr>get_text = ''27-11-47 EXAMPLE SITE NAME Activity Type LUST Lead contamination detected'',
      tags = [form_input [''form-control''] (Some (CHR 0xA0 # ''LUST '')),
              form_input [''form-control'', ''readonly''] (Some ''Open''),
              form_input [''search''] (Some ''ignored''),
              form_input [''form-control''] None,
              anchor ''/document?docSeqNo=4821'',
              form_input [''form-control''] (Some ''Northeast''),
              form_input [''form-control''] (Some ''Brown''),
              form_input [''form-control''] (Some ''OTHER NAME''),
              form_input [''form-control''] (Some [CHR 0xA0]),
              anchor ''https://apps.dnr.wi.gov/download-document/site-map'',
              anchor ''/about'']\<rparr>"

definition sample_env :: environment where
  "sample_env =
     \<lparr>BROWSERLESS_API_KEY = ''token'',
      post = (\<lambda>request. Response 200 ''<html>sample</html>''),
      BeautifulSoup = (\<lambda>html. Inr sample_page)\<rparr>"

definition timeout_env :: environment where
  "timeout_env =
     \<lparr>BROWSERLESS_API_KEY = ''token'',
      post = (\<lambda>request. Timeout),
      BeautifulSoup = (\<lambda>html. Inr sample_page)\<rparr>"

definition no_key_env :: environment where
  "no_key_env =
     \<lparr>BROWSERLESS_API_KEY = [],
      post = (\<lambda>request. Response 200 ''<html>sample</html>''),
      BeautifulSoup = (\<lambda>html. Inr sample_page)\<rparr>"

section \<open>The paths through the function\<close>

lemma run_missing_key:
  "BROWSERLESS_API_KEY env = [] \<Longrightarrow>
   scrape_run env dsn =
     ([(''site_info'', SiteInfo [(''dsn'', dsn)]),
       (''risk_flags'', RiskFlags [(''status_label'', FlagStr ''UNKNOWN'')]),
       (''documents'', Documents []),
       (''error'', Str ''BROWSERLESS_API_KEY not set. Add it to environment variables.''),
       (''summary'', Str ''Browserless API key required for full scraping.'')], [])"
  by (simp add: scrape_run_def Let_def)

lemma run_timeout:
  "BROWSERLESS_API_KEY env \<noteq> [] \<Longrightarrow> post env (render_request env dsn) = Timeout \<Longrightarrow>
   scrape_run env dsn =
     ([(''site_info'', SiteInfo [(''dsn'', dsn)]),
       (''risk_flags'', RiskFlags [(''status_label'', FlagStr ''UNKNOWN'')]),
       (''documents'', Documents []),
       (''error'', Str ''Request timed out''),
       (''summary'', Str ''Page load timed out'')], [render_request env dsn])"
  by (simp add: scrape_run_def Let_def)

lemma run_raises:
  "BROWSERLESS_API_KEY env \<noteq> [] \<Longrightarrow> post env (render_request env dsn) = Raises e \<Longrightarrow>
   scrape_run env dsn =
     ([(''site_info'', SiteInfo [(''dsn'', dsn)]),
       (''risk_flags'', RiskFlags [(''status_label'', FlagStr ''UNKNOWN'')]),
       (''documents'', Documents []),
       (''error'', Str e),
       (''summary'', Str (''Error: '' @ e))], [render_request env dsn])"
  by (simp add: scrape_run_def Let_def)

lemma run_bad_status:
  "BROWSERLESS_API_KEY env \<noteq> [] \<Longrightarrow>
   post env (render_request env dsn) = Response status_code body \<Longrightarrow> status_code \<noteq> 200 \<Longrightarrow>
   scrape_run env dsn =
     ([(''site_info'', SiteInfo [(''dsn'', dsn)]),
       (''risk_flags'', RiskFlags [(''status_label'', FlagStr ''UNKNOWN'')]),
       (''documents'', Documents []),
       (''error'', Str (''Browserless API error: '' @ str_nat status_code)),
       (''summary'', Str (''Failed to render page: '' @ take 200 body))],
      [render_request env dsn])"
  by (simp add: scrape_run_def Let_def)

lemma run_parser_raises:
  "BROWSERLESS_API_KEY env \<noteq> [] \<Longrightarrow>
   post env (render_request env dsn) = Response 200 body \<Longrightarrow> BeautifulSoup env body = Inl e \<Longrightarrow>
   scrape_run env dsn =
     ([(''site_info'', SiteInfo [(''dsn'', dsn)]),
       (''risk_flags'', RiskFlags [(''status_label'', FlagStr ''UNKNOWN'')]),
       (''documents'', Documents []),
       (''error'', Str e),
       (''summary'', Str (''Error: '' @ e))], [render_request env dsn])"
  by (simp add: scrape_run_def Let_def)

lemma run_success:
  "BROWSERLESS_API_KEY env \<noteq> [] \<Longrightarrow>
   post env (render_request env dsn) = Response 200 body \<Longrightarrow> BeautifulSoup env body = Inr sp \<Longrightarrow>
   scrape_run env dsn =
     (parse_page sp [(''dsn'', dsn)] [(''status_label'', FlagStr ''UNKNOWN'')] [],
      [render_request env dsn])"
  by (simp add: scrape_run_def Let_def)

text \<open>
  A property of every result: it holds of the four error results and of the result of
  parsing any page. The flag says whether the path is the success path.
\<close>

lemma result_forms:
  assumes "P False [(''site_info'', SiteInfo [(''dsn'', dsn)]),
       (''risk_flags'', RiskFlags [(''status_label'', FlagStr ''UNKNOWN'')]),
       (''documents'', Documents []),
       (''error'', Str ''BROWSERLESS_API_KEY not set. Add it to environment variables.''),
       (''summary'', Str ''Browserless API key required for full scraping.'')]"
    and "P False [(''site_info'', SiteInfo [(''dsn'', dsn)]),
       (''risk_flags'', RiskFlags [(''status_label'', FlagStr ''UNKNOWN'')]),
       (''documents'', Documents []),
       (''error'', Str ''Request timed out''),
       (''summary'', Str ''Page load timed out'')]"
    and "\<And>e. P False [(''site_info'', SiteInfo [(''dsn'', dsn)]),
       (''risk_flags'', RiskFlags [(''status_label'', FlagStr ''UNKNOWN'')]),
       (''documents'', Documents []),
       (''error'', Str e),
       (''summary'', Str (''Error: '' @ e))]"
    and "\<And>status_code body. P False [(''site_info'', SiteInfo [(''dsn'', dsn)]),
       (''risk_flags'', RiskFlags [(''status_label'', FlagStr ''UNKNOWN'')]),
       (''documents'', Documents []),
       (''error'', Str (''Browserless API error: '' @ str_nat status_code)),
       (''summary'', Str (''Failed to render page: '' @ take 200 body))]"
    and "\<And>sp. P True (parse_page sp [(''dsn'', dsn)] [(''status_label'', FlagStr ''UNKNOWN'')] [])"
  shows "P (success_path env dsn) (scrape_with_browserless env dsn)"
proof (cases "BROWSERLESS_API_KEY env = []")
  case True
  then show ?thesis
    using assms(1) by (simp add: scrape_with_browserless_def run_missing_key success_path_def)
next
  case key: False
  show ?thesis
  proof (cases "post env (render_request env dsn)")
    case Timeout
    then show ?thesis
      using key assms(2) by (simp add: scrape_with_browserless_def run_timeout success_path_def)
  next
    case (Raises e)
    then show ?thesis
      using key assms(3) [of e]
      by (simp add: scrape_with_browserless_def run_raises success_path_def)
  next
    case (Response status_code body)
    show ?thesis
    proof (cases "status_code = 200")
      case False
      then show ?thesis
        using key Response assms(4) [of status_code body]
        by (simp add: scrape_with_browserless_def run_bad_status success_path_def)
    next
      case True
      show ?thesis
      proof (cases "BeautifulSoup env body")
        case (Inl e)
        then show ?thesis
          using key Response True assms(3) [of e]
          by (simp add: scrape_with_browserless_def run_parser_raises success_path_def)
      next
        case (Inr sp)
        then show ?thesis
          using key Response True assms(5) [of sp]
          by (simp add: scrape_with_browserless_def run_success success_path_def)
      qed
    qed
  qed
qed

lemma calls_bounded:
  "length (outbound_calls env dsn) \<le> 1 \<and>
   list_all (\<lambda>r. req_timeout r = 60) (outbound_calls env dsn)"
  by (simp add: outbound_calls_def scrape_run_def Let_def render_request_def
      split: post_outcome.split sum.split)

section \<open>The stages\<close>

lemma parse_page_error: "map_of (parse_page sp si rf docs) ''error'' = Some NoneVal"
  by (simp add: parse_page_def Let_def)

lemma parse_page_well_formed: "well_formed (parse_page sp si rf docs)"
  by (simp add: parse_page_def Let_def well_formed_def)

lemma parse_page_keys:
  "map fst (parse_page sp si rf docs) =
     [''site_info'', ''risk_flags'', ''documents'', ''summary'', ''error'']"
  by (simp add: parse_page_def Let_def)

lemma parse_page_site_info:
  "map_of (parse_page sp si rf docs) ''site_info'' =
     Some (SiteInfo (map_fields field_map (input_values sp) (extract_header (get_text sp) si)))"
  by (simp add: parse_page_def Let_def)

lemma parse_page_risk_flags:
  "map_of (parse_page sp si rf docs) ''risk_flags'' =
     Some (RiskFlags
       (classify (map_fields field_map (input_values sp) (extract_header (get_text sp) si))
          (get_text sp) rf))"
  by (simp add: parse_page_def Let_def)


text \<open>The header step writes two keys and leaves the others.\<close>

lemma extract_header_map_of:
  "map_of (extract_header page_text si) k =
     (case re_search header_re page_text of
        None \<Rightarrow> map_of si k
      | Some m \<Rightarrow>
          if k = ''location_name'' then Some (strip (group m 2))
          else if k = ''activity_number'' then Some (group m 1)
          else map_of si k)"
  by (simp add: extract_header_def update_conv' split: option.split)

text \<open>The loop over the position table, key by key.\<close>

lemma dict_has_update:
  "dict_has (AList.update k v si) k' = (k' = k \<or> dict_has si k')"
  by (simp add: dict_has_def update_conv')

lemma map_fields_other:
  "k \<notin> snd ` set fm \<Longrightarrow> map_of (map_fields fm vals si) k = map_of si k"
  by (induction fm vals si rule: map_fields.induct) (auto simp: update_conv')

lemma map_fields_entry:
  "distinct (map snd fm) \<Longrightarrow> (idx, key) \<in> set fm \<Longrightarrow>
   map_of (map_fields fm vals si) key =
     (if idx < length vals \<and> vals ! idx \<noteq> [] \<and>
         \<not> (key = ''location_name'' \<and> dict_has si ''location_name'')
      then Some (vals ! idx) else map_of si key)"
proof (induction fm vals si rule: map_fields.induct)
  case (1 vals si)
  then show ?case by simp
next
  case (2 i k rest vals si)
  show ?case
  proof (cases "(idx, key) = (i, k)")
    case True
    then have "key \<notin> snd ` set rest"
      using "2.prems"(1) by auto
    then show ?thesis
      using True by (auto simp: map_fields_other update_conv')
  next
    case False
    then have mem: "(idx, key) \<in> set rest"
      using "2.prems"(2) by auto
    have ne: "key \<noteq> k"
      using "2.prems"(1) mem by force
    have d: "distinct (map snd rest)"
      using "2.prems"(1) by simp
    show ?thesis
      using "2.IH"(1) [OF _ _ d mem] "2.IH"(2) [OF _ _ d mem] "2.IH"(3) [OF _ d mem] ne
      by (auto simp: update_conv' dict_has_update)
  qed
qed

lemma field_map_distinct: "distinct (map snd field_map)"
  by (simp add: field_map_def)

lemma field_map_not_header:
  "(idx, key) \<in> set field_map \<Longrightarrow> key \<noteq> ''dsn'' \<and> key \<noteq> ''activity_number''"
  by (auto simp: field_map_def)

lemma header_keys_not_fields:
  "''dsn'' \<notin> snd ` set field_map \<and> ''activity_number'' \<notin> snd ` set field_map"
  by (simp add: field_map_def)

lemma location_name_field: "(5, ''location_name'') \<in> set field_map"
  by (simp add: field_map_def)

text \<open>The classifier, started on the initial flags.\<close>

lemma upper_empty: "(upper s = []) = (s = [])"
  by (cases s) (simp_all add: upper_def upper_char_def)

lemma classify_initial:
  "classify si page_text [(''status_label'', FlagStr ''UNKNOWN'')] =
     [(''status_label'',
        (case map_of si ''status'' of
           None \<Rightarrow> FlagStr ''UNKNOWN''
         | Some st \<Rightarrow> if st = [] then FlagStr ''UNKNOWN'' else text_flag (upper st)))] @
     (if upper (case map_of si ''activity_type'' of None \<Rightarrow> [] | Some a \<Rightarrow> a) =
           code_points ''LUST'' \<or>
         contains ''petroleum'' (lower page_text)
      then [(''petroleum'', FlagBool True)] else []) @
     (if contains ''pfas'' (lower page_text) then [(''pfas'', FlagBool True)] else []) @
     (if contains ''arsenic'' (lower page_text) \<or> contains ''lead'' (lower page_text) \<or>
         contains ''mercury'' (lower page_text) \<or> contains ''chromium'' (lower page_text)
      then [(''heavy_metals'', FlagBool True)] else [])"
  by (simp add: classify_def Let_def dict_get_def heavy_metals_def upper_empty split: option.split)








lemma header_example:
  "re_search header_re (''27-11-47 EXAMPLE SITE NAME Activity Type'' @ rest) =
     Some [''27-11-47'', ''EXAMPLE SITE NAME'']"
  by (simp add: header_re_def startswith_def in_class_def isdigit_def isspace_def
      whitespace_def in_range_def)

lemma strip_example: "strip ''EXAMPLE SITE NAME'' = ''EXAMPLE SITE NAME''"
  by (simp add: strip_def isspace_def whitespace_def)

text \<open>
  Characters above U+007F: the no-break space is stripped and separates the number from
  the name in the header; \<open>upper\<close> maps the letters of Latin-1, and leaves the range at the
  micro sign.
\<close>

lemma strip_nbsp: "strip (CHR 0xA0 # ''LUST '' @ [CHR 0x85]) = ''LUST'' \<and> strip [CHR 0xA0] = []"
  by (simp add: strip_def isspace_def whitespace_def)

lemma header_nbsp:
  "re_search header_re (''27-11-47 AB'' @ [CHR 0xA0] @ '' 27-11-48 CD'') =
     Some [''27-11-47'', ''AB'' @ [CHR 0xA0] @ '' 27-11-48 CD'']"
  by (simp add: header_re_def startswith_def in_class_def isdigit_def isspace_def
      whitespace_def in_range_def)

lemma text_flag_code_points: "text_flag (code_points s) = FlagStr s"
  by (simp add: text_flag_def code_points_def list_all_iff)

lemma upper_latin1:
  "upper (''Ge'' @ [CHR 0xF6] @ ''ffnet'') = code_points (''GE'' @ [CHR 0xD6] @ ''FFNET'') \<and>
   upper (''stra'' @ [CHR 0xDF] @ ''e'') = code_points ''STRASSE'' \<and>
   text_flag (upper [CHR 0xB5, CHR ''m'']) = FlagText [0x39C, 0x4D]"
  by (simp add: text_flag_def upper_def upper_char_def code_points_def ascii_uppercase_def
      ascii_lowercase_def latin1_uppercase_def latin1_lowercase_def)

section \<open>The sample page, evaluated\<close>

lemma sample_success:
  "BROWSERLESS_API_KEY sample_env \<noteq> [] \<and>
   post sample_env (render_request sample_env dsn) = Response 200 ''<html>sample</html>'' \<and>
   BeautifulSoup sample_env ''<html>sample</html>'' = Inr sample_page"
  by (simp add: sample_env_def)

lemma sample_input_values:
  "input_values sample_page =
     [''LUST'', ''Open'', [], ''Northeast'', ''Brown'', ''OTHER NAME'', []]"
  by (simp add: input_values_def find_inputs_def sample_page_def form_input_def anchor_def
      input_value_def strip_def isspace_def whitespace_def)


lemma sample_header:
  "re_search header_re (get_text sample_page) = Some [''27-11-47'', ''EXAMPLE SITE NAME'']"
  using header_example [of "'' LUST Lead contamination detected''"]
  by (simp add: sample_page_def)

lemma timeout_env_facts:
  "BROWSERLESS_API_KEY timeout_env \<noteq> [] \<and>
   post timeout_env (render_request timeout_env dsn) = Timeout"
  by (simp add: timeout_env_def)

lemma sample_site_info:
  "map_fields field_map (input_values sample_page)
     (extract_header (get_text sample_page) [(''dsn'', dsn)]) =
   [(''dsn'', dsn), (''activity_number'', ''27-11-47''), (''location_name'', ''EXAMPLE SITE NAME''),
    (''activity_type'', ''LUST''), (''status'', ''Open''), (''dnr_region'', ''Northeast''),
    (''county'', ''Brown'')]"
  by (simp add: sample_input_values extract_header_def sample_header group_def strip_example
      field_map_def dict_has_def)

lemma sample_result:
  "scrape_with_browserless sample_env dsn =
     parse_page sample_page [(''dsn'', dsn)] [(''status_label'', FlagStr ''UNKNOWN'')] []"
  using sample_success [of dsn] by (simp add: scrape_with_browserless_def run_success)

lemma sample_text_lower:
  "lower (get_text sample_page) =
     ''27-11-47 example site name activity type lust lead contamination detected''"
  by (simp add: sample_page_def lower_def lower_char_def ascii_uppercase_def ascii_lowercase_def
      latin1_uppercase_def latin1_lowercase_def)

lemma sample_text_flags:
  "\<not> contains ''petroleum'' (lower (get_text sample_page)) \<and>
   \<not> contains ''pfas'' (lower (get_text sample_page)) \<and>
   contains ''lead'' (lower (get_text sample_page))"
  by (simp add: sample_text_lower startswith_def)

lemma upper_examples:
  "upper ''Open'' = code_points ''OPEN'' \<and> upper ''LUST'' = code_points ''LUST''"
  by (simp add: upper_def upper_char_def code_points_def ascii_uppercase_def
      ascii_lowercase_def latin1_uppercase_def latin1_lowercase_def)




section \<open>The claims\<close>

text \<open>
  C1. For every site identifier and every behaviour of the rendering service (success, a
  status other than 200, a timeout, or an exception), \<open>scrape_with_browserless\<close> returns a
  well-formed Result: every \<open>raise\<close> of the source ends in a \<open>return\<close> of a handler, so the
  function has a value in every environment. The error of that Result is \<open>None\<close> exactly
  on the success path, and a string on every other path.
\<close>

theorem scrape_never_raises:
  "well_formed (scrape_with_browserless env dsn) \<and>
   (map_of (scrape_with_browserless env dsn) ''error'' = Some NoneVal) = success_path env dsn \<and>
   (success_path env dsn \<or> is_str (map_of (scrape_with_browserless env dsn) ''error''))"
  by (rule result_forms [where P = "\<lambda>ok r. well_formed r \<and>
        (map_of r ''error'' = Some NoneVal) = ok \<and> (ok \<or> is_str (map_of r ''error''))"])
     (simp_all add: well_formed_def parse_page_error parse_page_well_formed [unfolded well_formed_def])

theorem scrape_never_raises_witness:
  "well_formed (scrape_with_browserless timeout_env ''271147'') \<and>
   \<not> success_path timeout_env ''271147'' \<and>
   map_of (scrape_with_browserless timeout_env ''271147'') ''error'' = Some (Str ''Request timed out'') \<and>
   success_path sample_env ''271147'' \<and>
   map_of (scrape_with_browserless sample_env ''271147'') ''error'' = Some NoneVal"
proof -
  have t: "\<not> success_path timeout_env ''271147''"
    by (simp add: success_path_def timeout_env_def)
  have s: "success_path sample_env ''271147''"
    by (simp add: success_path_def sample_env_def)
  have e: "map_of (scrape_with_browserless timeout_env ''271147'') ''error'' =
      Some (Str ''Request timed out'')"
    using timeout_env_facts [of "''271147''"]
    by (simp add: scrape_with_browserless_def run_timeout)
  show ?thesis
    using t s e scrape_never_raises [of timeout_env "''271147''"]
      scrape_never_raises [of sample_env "''271147''"]
    by simp
qed

text \<open>
  C2. Every Result whose error is not \<open>None\<close> carries the initial structures only:
  \<open>site_info\<close> is \<open>{dsn: identifier}\<close>, \<open>risk_flags\<close> is \<open>{status_label: "UNKNOWN"}\<close> and
  \<open>documents\<close> is empty. No error Result shows extracted data: every failure happens
  before the first field is written, and the steps that write fields are total.
\<close>

theorem failure_result_initial:
  "map_of (scrape_with_browserless env dsn) ''error'' \<noteq> Some NoneVal \<longrightarrow>
   map_of (scrape_with_browserless env dsn) ''site_info'' = Some (SiteInfo [(''dsn'', dsn)]) \<and>
   map_of (scrape_with_browserless env dsn) ''risk_flags'' =
     Some (RiskFlags [(''status_label'', FlagStr ''UNKNOWN'')]) \<and>
   map_of (scrape_with_browserless env dsn) ''documents'' = Some (Documents [])"
  by (rule result_forms [where P = "\<lambda>ok r. map_of r ''error'' \<noteq> Some NoneVal \<longrightarrow>
        map_of r ''site_info'' = Some (SiteInfo [(''dsn'', dsn)]) \<and>
        map_of r ''risk_flags'' = Some (RiskFlags [(''status_label'', FlagStr ''UNKNOWN'')]) \<and>
        map_of r ''documents'' = Some (Documents [])"])
     (simp_all add: parse_page_error)

theorem failure_result_initial_witness:
  "map_of (scrape_with_browserless timeout_env ''271147'') ''error'' \<noteq> Some NoneVal \<and>
   map_of (scrape_with_browserless timeout_env ''271147'') ''site_info'' =
     Some (SiteInfo [(''dsn'', ''271147'')]) \<and>
   map_of (scrape_with_browserless timeout_env ''271147'') ''risk_flags'' =
     Some (RiskFlags [(''status_label'', FlagStr ''UNKNOWN'')]) \<and>
   map_of (scrape_with_browserless timeout_env ''271147'') ''documents'' = Some (Documents [])"
proof -
  have e: "map_of (scrape_with_browserless timeout_env ''271147'') ''error'' \<noteq> Some NoneVal"
    using timeout_env_facts [of "''271147''"]
    by (simp add: scrape_with_browserless_def run_timeout)
  show ?thesis
    using e failure_result_initial [of timeout_env "''271147''"] by simp
qed

text \<open>
  C3. On the success path the extractor takes the inputs of class \<open>form-control\<close> in
  document order, reads and strips the value of each, and maps the positions 0 to 16, in
  order, to the seventeen field names. For every position of the table, the field in
  \<open>site_info\<close> is the value at that position when there is one and it is not empty, and
  is absent otherwise: a page with fewer inputs maps the positions it has, and the error
  stays \<open>None\<close>. (Where the header has set \<open>location_name\<close>, position 5 is not written:
  that case is C6.)
\<close>

theorem positional_extraction:
  assumes "BROWSERLESS_API_KEY env \<noteq> []"
    and "post env (render_request env dsn) = Response 200 html"
    and "BeautifulSoup env html = Inr sp"
    and "(idx, key) \<in> set field_map"
  shows "map fst field_map = [0, 1, 2, 3, 4, 5, 6, 7, 8, 9, 10, 11, 12, 13, 14, 15, 16] \<and>
    map snd field_map =
      [''activity_type'', ''status'', ''jurisdiction'', ''dnr_region'', ''county'',
       ''location_name'', ''address'', ''municipality'', ''plss_description'', ''latitude'',
       ''longitude'', ''acres'', ''facility_id'', ''pecfa_number'', ''epa_id'', ''start_date'',
       ''end_date''] \<and>
    input_values sp =
      map (\<lambda>inp. strip (case tag_value inp of Some v \<Rightarrow> v | None \<Rightarrow> []))
        (filter (\<lambda>t. tag_name t = ''input'' \<and> ''form-control'' \<in> set (tag_class t)) (tags sp)) \<and>
    map_of (scrape_with_browserless env dsn) ''error'' = Some NoneVal \<and>
    (\<exists>site_info.
       map_of (scrape_with_browserless env dsn) ''site_info'' = Some (SiteInfo site_info) \<and>
       (key = ''location_name'' \<and> re_search header_re (get_text sp) \<noteq> None \<or>
        map_of site_info key =
          (if idx < length (input_values sp) \<and> input_values sp ! idx \<noteq> []
           then Some (input_values sp ! idx) else None)))"
proof -
  have r: "scrape_with_browserless env dsn =
      parse_page sp [(''dsn'', dsn)] [(''status_label'', FlagStr ''UNKNOWN'')] []"
    using assms(1-3) by (simp add: scrape_with_browserless_def run_success)
  have table: "map fst field_map = [0, 1, 2, 3, 4, 5, 6, 7, 8, 9, 10, 11, 12, 13, 14, 15, 16] \<and>
    map snd field_map =
      [''activity_type'', ''status'', ''jurisdiction'', ''dnr_region'', ''county'',
       ''location_name'', ''address'', ''municipality'', ''plss_description'', ''latitude'',
       ''longitude'', ''acres'', ''facility_id'', ''pecfa_number'', ''epa_id'', ''start_date'',
       ''end_date'']"
    by (simp add: field_map_def)
  have vals: "input_values sp =
      map (\<lambda>inp. strip (case tag_value inp of Some v \<Rightarrow> v | None \<Rightarrow> []))
        (filter (\<lambda>t. tag_name t = ''input'' \<and> ''form-control'' \<in> set (tag_class t)) (tags sp))"
    by (simp add: input_values_def find_inputs_def input_value_def)
  let ?h = "extract_header (get_text sp) [(''dsn'', dsn)]"
  let ?si = "map_fields field_map (input_values sp) ?h"
  have k: "key \<noteq> ''dsn''" "key \<noteq> ''activity_number''"
    using field_map_not_header [OF assms(4)] by simp_all
  have "key = ''location_name'' \<and> re_search header_re (get_text sp) \<noteq> None \<or>
      map_of ?si key =
        (if idx < length (input_values sp) \<and> input_values sp ! idx \<noteq> []
         then Some (input_values sp ! idx) else None)"
  proof (cases "key = ''location_name'' \<and> re_search header_re (get_text sp) \<noteq> None")
    case True
    then show ?thesis by simp
  next
    case False
    then have none: "map_of ?h key = None"
      using k by (auto simp: extract_header_map_of split: option.splits)
    have free: "\<not> (key = ''location_name'' \<and> dict_has ?h ''location_name'')"
      using False by (auto simp: extract_header_map_of dict_has_def split: option.splits)
    show ?thesis
      using map_fields_entry [OF field_map_distinct assms(4), of "input_values sp" ?h] none free
      by simp
  qed
  then show ?thesis
    using table vals by (simp add: r parse_page_error parse_page_site_info del: map_of.simps)
qed

theorem positional_extraction_witness:
  "BROWSERLESS_API_KEY sample_env \<noteq> [] \<and>
   post sample_env (render_request sample_env ''271147'') = Response 200 ''<html>sample</html>'' \<and>
   BeautifulSoup sample_env ''<html>sample</html>'' = Inr sample_page \<and>
   (4, ''county'') \<in> set field_map \<and> (6, ''address'') \<in> set field_map \<and>
   input_values sample_page =
     [''LUST'', ''Open'', [], ''Northeast'', ''Brown'', ''OTHER NAME'', []] \<and>
   map_of (scrape_with_browserless sample_env ''271147'') ''error'' = Some NoneVal \<and>
   (\<exists>site_info.
      map_of (scrape_with_browserless sample_env ''271147'') ''site_info'' = Some (SiteInfo site_info) \<and>
      map_of site_info ''county'' = Some ''Brown'' \<and>
      map_of site_info ''address'' = None)"
proof -
  have a: "BROWSERLESS_API_KEY sample_env \<noteq> []"
    and b: "post sample_env (render_request sample_env ''271147'') = Response 200 ''<html>sample</html>''"
    and c: "BeautifulSoup sample_env ''<html>sample</html>'' = Inr sample_page"
    using sample_success [of "''271147''"] by simp_all
  have d: "(4, ''county'') \<in> set field_map" and e: "(6, ''address'') \<in> set field_map"
    by (simp_all add: field_map_def)
  show ?thesis
    using a b c d e positional_extraction [OF a b c d] positional_extraction [OF a b c e]
    by (auto simp: sample_input_values simp del: map_of.simps)
qed

text \<open>
  C4. On the success path \<open>risk_flags\<close> is exactly this mapping, in this order:
  \<open>status_label\<close> is the upper case of the status in \<open>site_info\<close>, or \<open>"UNKNOWN"\<close> when
  the status is absent or empty; \<open>petroleum\<close> is present (and true) iff the upper case of
  \<open>activity_type\<close> is \<open>"LUST"\<close> or the lower-cased page text contains \<open>"petroleum"\<close>;
  \<open>pfas\<close> iff that text contains \<open>"pfas"\<close>; \<open>heavy_metals\<close> iff it contains one of
  \<open>"arsenic"\<close>, \<open>"lead"\<close>, \<open>"mercury"\<close>, \<open>"chromium"\<close>. A flag that is false has no
  entry, so a page without any of the keywords yields \<open>status_label\<close> alone. The upper and
  lower case are those of \<open>str.upper\<close> and \<open>str.lower\<close>.
\<close>

theorem risk_classification:
  assumes "BROWSERLESS_API_KEY env \<noteq> []"
    and "post env (render_request env dsn) = Response 200 html"
    and "BeautifulSoup env html = Inr sp"
  shows "\<exists>site_info.
    map_of (scrape_with_browserless env dsn) ''site_info'' = Some (SiteInfo site_info) \<and>
    map_of (scrape_with_browserless env dsn) ''risk_flags'' =
      Some (RiskFlags
        ([(''status_label'',
            (case map_of site_info ''status'' of
               None \<Rightarrow> FlagStr ''UNKNOWN''
             | Some st \<Rightarrow> if st = [] then FlagStr ''UNKNOWN'' else text_flag (upper st)))] @
         (if upper (case map_of site_info ''activity_type'' of None \<Rightarrow> [] | Some a \<Rightarrow> a) =
               code_points ''LUST'' \<or>
             contains ''petroleum'' (lower (get_text sp))
          then [(''petroleum'', FlagBool True)] else []) @
         (if contains ''pfas'' (lower (get_text sp)) then [(''pfas'', FlagBool True)] else []) @
         (if contains ''arsenic'' (lower (get_text sp)) \<or> contains ''lead'' (lower (get_text sp)) \<or>
             contains ''mercury'' (lower (get_text sp)) \<or> contains ''chromium'' (lower (get_text sp))
          then [(''heavy_metals'', FlagBool True)] else [])))"
proof -
  have r: "scrape_with_browserless env dsn =
      parse_page sp [(''dsn'', dsn)] [(''status_label'', FlagStr ''UNKNOWN'')] []"
    using assms by (simp add: scrape_with_browserless_def run_success)
  show ?thesis
    unfolding r parse_page_site_info parse_page_risk_flags classify_initial by blast
qed

theorem risk_classification_witness:
  "BROWSERLESS_API_KEY sample_env \<noteq> [] \<and>
   post sample_env (render_request sample_env ''271147'') = Response 200 ''<html>sample</html>'' \<and>
   BeautifulSoup sample_env ''<html>sample</html>'' = Inr sample_page \<and>
   map_of (scrape_with_browserless sample_env ''271147'') ''risk_flags'' =
     Some (RiskFlags [(''status_label'', FlagStr ''OPEN''), (''petroleum'', FlagBool True),
                      (''heavy_metals'', FlagBool True)])"
proof -
  have a: "BROWSERLESS_API_KEY sample_env \<noteq> []"
    and b: "post sample_env (render_request sample_env ''271147'') = Response 200 ''<html>sample</html>''"
    and c: "BeautifulSoup sample_env ''<html>sample</html>'' = Inr sample_page"
    using sample_success [of "''271147''"] by simp_all
  have si: "map_of (scrape_with_browserless sample_env ''271147'') ''site_info'' =
      Some (SiteInfo [(''dsn'', ''271147''), (''activity_number'', ''27-11-47''),
        (''location_name'', ''EXAMPLE SITE NAME''), (''activity_type'', ''LUST''),
        (''status'', ''Open''), (''dnr_region'', ''Northeast''), (''county'', ''Brown'')])"
    by (simp only: sample_result parse_page_site_info sample_site_info)
  show ?thesis
    using a b c risk_classification [OF a b c] sample_text_flags
    by (auto simp: si upper_examples text_flag_code_points)
qed



text \<open>
  C6. On the success path, whenever the header pattern matches the page text, the
  \<open>activity_number\<close> and the \<open>location_name\<close> of \<open>site_info\<close> are the two groups of that
  match (the second stripped), whatever the input at position 5 holds: the header wins. For
  a page text that begins \<open>27-11-47 EXAMPLE SITE NAME Activity Type\<close> they are
  \<open>27-11-47\<close> and \<open>EXAMPLE SITE NAME\<close>.
\<close>

theorem header_precedence:
  assumes "BROWSERLESS_API_KEY env \<noteq> []"
    and "post env (render_request env dsn) = Response 200 html"
    and "BeautifulSoup env html = Inr sp"
  shows "\<exists>site_info.
    map_of (scrape_with_browserless env dsn) ''site_info'' = Some (SiteInfo site_info) \<and>
    (\<forall>m. re_search header_re (get_text sp) = Some m \<longrightarrow>
       map_of site_info ''activity_number'' = Some (group m 1) \<and>
       map_of site_info ''location_name'' = Some (strip (group m 2))) \<and>
    (\<forall>rest. get_text sp = ''27-11-47 EXAMPLE SITE NAME Activity Type'' @ rest \<longrightarrow>
       map_of site_info ''activity_number'' = Some ''27-11-47'' \<and>
       map_of site_info ''location_name'' = Some ''EXAMPLE SITE NAME'')"
proof -
  have r: "scrape_with_browserless env dsn =
      parse_page sp [(''dsn'', dsn)] [(''status_label'', FlagStr ''UNKNOWN'')] []"
    using assms by (simp add: scrape_with_browserless_def run_success)
  let ?h = "extract_header (get_text sp) [(''dsn'', dsn)]"
  let ?si = "map_fields field_map (input_values sp) ?h"
  have general: "map_of ?si ''activity_number'' = Some (group m 1) \<and>
      map_of ?si ''location_name'' = Some (strip (group m 2))"
    if m: "re_search header_re (get_text sp) = Some m" for m
  proof -
    have h: "map_of ?h ''location_name'' = Some (strip (group m 2))"
        "map_of ?h ''activity_number'' = Some (group m 1)"
      using m by (simp_all add: extract_header_map_of)
    have "dict_has ?h ''location_name''"
      using h(1) by (simp add: dict_has_def)
    then have "map_of ?si ''location_name'' = map_of ?h ''location_name''"
      using map_fields_entry [OF field_map_distinct location_name_field, of "input_values sp" ?h]
      by simp
    moreover have "map_of ?si ''activity_number'' = map_of ?h ''activity_number''"
      using header_keys_not_fields by (simp add: map_fields_other)
    ultimately show ?thesis
      using h by simp
  qed
  have example: "map_of ?si ''activity_number'' = Some ''27-11-47'' \<and>
      map_of ?si ''location_name'' = Some ''EXAMPLE SITE NAME''"
    if t: "get_text sp = ''27-11-47 EXAMPLE SITE NAME Activity Type'' @ rest" for rest
    using general [of "[''27-11-47'', ''EXAMPLE SITE NAME'']"] header_example [of rest] t
    by (simp add: group_def strip_example)
  show ?thesis
    unfolding r parse_page_site_info using general example by blast
qed

theorem header_precedence_witness:
  "BROWSERLESS_API_KEY sample_env \<noteq> [] \<and>
   post sample_env (render_request sample_env ''271147'') = Response 200 ''<html>sample</html>'' \<and>
   BeautifulSoup sample_env ''<html>sample</html>'' = Inr sample_page \<and>
   get_text sample_page =
     ''27-11-47 EXAMPLE SITE NAME Activity Type'' @ '' LUST Lead contamination detected'' \<and>
   input_values sample_page ! 5 = ''OTHER NAME'' \<and>
   (\<exists>site_info.
      map_of (scrape_with_browserless sample_env ''271147'') ''site_info'' = Some (SiteInfo site_info) \<and>
      map_of site_info ''activity_number'' = Some ''27-11-47'' \<and>
      map_of site_info ''location_name'' = Some ''EXAMPLE SITE NAME'')"
proof -
  have a: "BROWSERLESS_API_KEY sample_env \<noteq> []"
    and b: "post sample_env (render_request sample_env ''271147'') = Response 200 ''<html>sample</html>''"
    and c: "BeautifulSoup sample_env ''<html>sample</html>'' = Inr sample_page"
    using sample_success [of "''271147''"] by simp_all
  have t: "get_text sample_page =
      ''27-11-47 EXAMPLE SITE NAME Activity Type'' @ '' LUST Lead contamination detected''"
    by (simp add: sample_page_def)
  have v: "input_values sample_page ! 5 = ''OTHER NAME''"
    by (simp add: sample_input_values)
  obtain site_info where
    "map_of (scrape_with_browserless sample_env ''271147'') ''site_info'' = Some (SiteInfo site_info)"
    "\<forall>rest. get_text sample_page = ''27-11-47 EXAMPLE SITE NAME Activity Type'' @ rest \<longrightarrow>
       map_of site_info ''activity_number'' = Some ''27-11-47'' \<and>
       map_of site_info ''location_name'' = Some ''EXAMPLE SITE NAME''"
    using header_precedence [OF a b c] by blast
  then show ?thesis
    using a b c t v by blast
qed

text \<open>
  C7. Without a credential (\<open>BROWSERLESS_API_KEY\<close> unset or empty) the function sends no
  request and returns the Result whose error names the missing credential, with
  \<open>site_info\<close> exactly \<open>{dsn: identifier}\<close>, \<open>risk_flags\<close> exactly
  \<open>{status_label: "UNKNOWN"}\<close> and no documents.
\<close>

theorem missing_credential:
  "BROWSERLESS_API_KEY env = [] \<Longrightarrow>
   scrape_with_browserless env dsn =
     [(''site_info'', SiteInfo [(''dsn'', dsn)]),
      (''risk_flags'', RiskFlags [(''status_label'', FlagStr ''UNKNOWN'')]),
      (''documents'', Documents []),
      (''error'', Str ''BROWSERLESS_API_KEY not set. Add it to environment variables.''),
      (''summary'', Str ''Browserless API key required for full scraping.'')] \<and>
   outbound_calls env dsn = []"
  by (simp add: scrape_with_browserless_def outbound_calls_def run_missing_key)

theorem missing_credential_witness:
  "BROWSERLESS_API_KEY no_key_env = [] \<and>
   scrape_with_browserless no_key_env ''271147'' =
     [(''site_info'', SiteInfo [(''dsn'', ''271147'')]),
      (''risk_flags'', RiskFlags [(''status_label'', FlagStr ''UNKNOWN'')]),
      (''documents'', Documents []),
      (''error'', Str ''BROWSERLESS_API_KEY not set. Add it to environment variables.''),
      (''summary'', Str ''Browserless API key required for full scraping.'')] \<and>
   outbound_calls no_key_env ''271147'' = []"
proof -
  have k: "BROWSERLESS_API_KEY no_key_env = []"
    by (simp add: no_key_env_def)
  show ?thesis
    using k missing_credential [OF k, of "''271147''"] by simp
qed

text \<open>
  C8. The function sends at most one request, and every request it sends has the timeout
  60. When that request times out, the Result has the error \<open>"Request timed out"\<close>,
  \<open>site_info\<close> \<open>{dsn: identifier}\<close>, \<open>risk_flags\<close> \<open>{status_label: "UNKNOWN"}\<close> and no
  documents.
\<close>

theorem request_timeout:
  "length (outbound_calls env dsn) \<le> 1 \<and>
   list_all (\<lambda>r. req_timeout r = 60) (outbound_calls env dsn) \<and>
   (BROWSERLESS_API_KEY env \<noteq> [] \<and> post env (render_request env dsn) = Timeout \<longrightarrow>
      outbound_calls env dsn = [render_request env dsn] \<and>
      scrape_with_browserless env dsn =
        [(''site_info'', SiteInfo [(''dsn'', dsn)]),
         (''risk_flags'', RiskFlags [(''status_label'', FlagStr ''UNKNOWN'')]),
         (''documents'', Documents []),
         (''error'', Str ''Request timed out''),
         (''summary'', Str ''Page load timed out'')])"
  using calls_bounded [of env dsn]
  by (simp add: scrape_with_browserless_def outbound_calls_def run_timeout)

theorem request_timeout_witness:
  "BROWSERLESS_API_KEY timeout_env \<noteq> [] \<and>
   post timeout_env (render_request timeout_env ''271147'') = Timeout \<and>
   outbound_calls timeout_env ''271147'' = [render_request timeout_env ''271147''] \<and>
   req_timeout (render_request timeout_env ''271147'') = 60 \<and>
   scrape_with_browserless timeout_env ''271147'' =
     [(''site_info'', SiteInfo [(''dsn'', ''271147'')]),
      (''risk_flags'', RiskFlags [(''status_label'', FlagStr ''UNKNOWN'')]),
      (''documents'', Documents []),
      (''error'', Str ''Request timed out''),
      (''summary'', Str ''Page load timed out'')]"
  using timeout_env_facts [of "''271147''"] request_timeout [of timeout_env "''271147''"]
  by (simp add: render_request_def)

text \<open>
  C9. The stages after the fetch are functions of the page alone: two invocations for the
  same identifier, in any two environments (whatever the credential or the moment), whose
  fetch returns the same HTML, return the same Result.
\<close>

theorem parsing_deterministic:
  "BROWSERLESS_API_KEY env1 \<noteq> [] \<Longrightarrow> BROWSERLESS_API_KEY env2 \<noteq> [] \<Longrightarrow>
   post env1 (render_request env1 dsn) = Response 200 html \<Longrightarrow>
   post env2 (render_request env2 dsn) = Response 200 html \<Longrightarrow>
   BeautifulSoup env1 html = BeautifulSoup env2 html \<Longrightarrow>
   scrape_with_browserless env1 dsn = scrape_with_browserless env2 dsn"
  by (cases "BeautifulSoup env2 html")
     (simp_all add: scrape_with_browserless_def run_success run_parser_raises)

theorem parsing_deterministic_witness:
  "BROWSERLESS_API_KEY sample_env \<noteq> BROWSERLESS_API_KEY (sample_env\<lparr>BROWSERLESS_API_KEY := ''other''\<rparr>) \<and>
   scrape_with_browserless sample_env ''271147'' =
     scrape_with_browserless (sample_env\<lparr>BROWSERLESS_API_KEY := ''other''\<rparr>) ''271147''"
proof -
  have "scrape_with_browserless sample_env ''271147'' =
      scrape_with_browserless (sample_env\<lparr>BROWSERLESS_API_KEY := ''other''\<rparr>) ''271147''"
    by (rule parsing_deterministic [where html = "''<html>sample</html>''"])
       (simp_all add: sample_env_def)
  then show ?thesis
    by (simp add: sample_env_def)
qed

text \<open>
  C10. Every Result, on every path, has exactly the five keys \<open>site_info\<close>,
  \<open>risk_flags\<close>, \<open>documents\<close>, \<open>summary\<close> and \<open>error\<close>, and its \<open>site_info\<close> maps
  \<open>dsn\<close> to the identifier the function was called with.
\<close>

theorem result_keys_and_dsn:
  "set (map fst (scrape_with_browserless env dsn)) =
     {''site_info'', ''risk_flags'', ''documents'', ''summary'', ''error''} \<and>
   length (scrape_with_browserless env dsn) = 5 \<and>
   (\<exists>site_info.
      map_of (scrape_with_browserless env dsn) ''site_info'' = Some (SiteInfo site_info) \<and>
      map_of site_info ''dsn'' = Some dsn)"
proof -
  have keys: "set (map fst (parse_page sp si rf docs)) =
      {''site_info'', ''risk_flags'', ''documents'', ''summary'', ''error''} \<and>
      length (parse_page sp si rf docs) = 5" for sp si rf docs
    using parse_page_keys [of sp si rf docs]
      arg_cong [OF parse_page_keys [of sp si rf docs], of length]
    by auto
  have dsn: "\<exists>site_info.
      map_of (parse_page sp [(''dsn'', dsn)] rf docs) ''site_info'' = Some (SiteInfo site_info) \<and>
      map_of site_info ''dsn'' = Some dsn" for sp rf docs
    using header_keys_not_fields
    by (simp add: parse_page_site_info map_fields_other extract_header_map_of split: option.split)
  show ?thesis
    by (rule result_forms [where P = "\<lambda>ok r. set (map fst r) =
          {''site_info'', ''risk_flags'', ''documents'', ''summary'', ''error''} \<and> length r = 5 \<and>
          (\<exists>site_info. map_of r ''site_info'' = Some (SiteInfo site_info) \<and>
             map_of site_info ''dsn'' = Some dsn)"])
       (use keys dsn in auto)
qed

theorem result_keys_and_dsn_witness:
  "map fst (scrape_with_browserless no_key_env ''271147'') =
     [''site_info'', ''risk_flags'', ''documents'', ''error'', ''summary''] \<and>
   length (scrape_with_browserless sample_env ''271147'') = 5 \<and>
   (\<exists>site_info.
      map_of (scrape_with_browserless sample_env ''271147'') ''site_info'' = Some (SiteInfo site_info) \<and>
      map_of site_info ''dsn'' = Some ''271147'')"
proof -
  have "map fst (scrape_with_browserless no_key_env ''271147'') =
      [''site_info'', ''risk_flags'', ''documents'', ''error'', ''summary'']"
    by (simp add: scrape_with_browserless_def run_missing_key no_key_env_def)
  then show ?thesis
    using result_keys_and_dsn [of sample_env "''271147''"] by simp
qed

end
